theory Spec2Isabelle
  imports Main
begin

section \<open>Settings and configuration\<close>

text \<open>
  The views of \<^verbatim>\<open>netbox/users/views.py\<close> read Django settings, the dynamic NetBox
  configuration (\<^verbatim>\<open>get_config()\<close>) and call into the web framework. The values and
  functions they consume are parameters of the model: nothing is assumed about them beyond
  their types.
\<close>

type_synonym user_id = nat
type_synonym timestamp = nat

text \<open>
  \<^verbatim>\<open>request.GET\<close> and \<^verbatim>\<open>request.POST\<close>: the submitted pairs in the order they were
  sent; a key may be repeated.
\<close>
type_synonym query_dict = "(string \<times> string) list"

text \<open>
  \<^verbatim>\<open>QueryDict.get(key)\<close>: the last value submitted under the key, \<open>None\<close> when the key is
  missing.
\<close>
definition QueryDict_get :: "query_dict \<Rightarrow> string \<Rightarrow> string option" where
  "QueryDict_get data k = map_of (rev data) k"

type_synonym preferences = "(string \<times> string) list"

record settings =
  LOGIN_REDIRECT_URL :: string
  LOGOUT_REDIRECT_URL :: string
  ALLOW_TOKEN_RETRIEVAL :: bool

text \<open>The object returned by \<^verbatim>\<open>get_config()\<close>.\<close>
record config =
  MAINTENANCE_MODE :: bool
  DEFAULT_USER_PREFERENCES :: preferences

section \<open>Tokens\<close>

text \<open>
  Modelled from the spec: the \<^verbatim>\<open>Token\<close> model class is not among the sources. The views
  read and write \<^verbatim>\<open>pk\<close>, \<^verbatim>\<open>user\<close> and \<^verbatim>\<open>key\<close>; the other fields are those of the
  spec's data model (3): an enabled flag, an optional expiration and an optional list of
  allowed client addresses. An instance that was never saved has no primary key, and one
  built by a form without an instance has no user yet.
\<close>
record token =
  pk :: "nat option"
  user :: "user_id option"
  key :: string
  enabled :: bool
  expires :: "timestamp option"
  allowed_ips :: "string list"

text \<open>
  Modelled from the spec: \<^verbatim>\<open>TokenForm\<close> is not among the sources. Its cleaned data are the
  editable fields of a token; \<open>form_key\<close> is \<open>None\<close> when the form carries no key field.
\<close>
record token_form_data =
  form_key :: "string option"
  form_enabled :: bool
  form_expires :: "timestamp option"
  form_allowed_ips :: "string list"

section \<open>Collaborators outside the sources\<close>

text \<open>
  Functions the views call and do not define. \<open>url_has_allowed_host_and_scheme\<close> is
  Django's check as the view calls it, with \<^verbatim>\<open>allowed_hosts=None\<close>. \<open>reverse\<close> maps a
  URL name to its path and \<open>reverse_begin\<close> is
  \<^verbatim>\<open>reverse('social:begin', args=[name])\<close>; the names the views reverse are fixed in the
  code and are routes of the application. \<open>resolve_url\<close> is Django's
  \<^verbatim>\<open>resolve_url(to)\<close>, which \<^verbatim>\<open>redirect(to)\<close> calls too: the URL its argument stands
  for, or \<open>None\<close> when it raises \<^verbatim>\<open>NoReverseMatch\<close> (the argument is no route name and
  does not look like a URL). \<open>authenticate\<close> is the credential check behind
  \<^verbatim>\<open>LoginForm.is_valid()\<close>; \<open>load_backends\<close> are the names of the loaded
  authentication backends; \<open>generate_key\<close> is the key the token model draws when a
  token is saved without one; \<open>TokenForm_clean\<close> validates the posted data against the
  form's instance and yields the cleaned data, or \<open>None\<close> when the form is not valid;
  \<open>ConfirmationForm_is_valid\<close> validates the confirmation form.
\<close>
record framework =
  url_has_allowed_host_and_scheme :: "string \<Rightarrow> bool"
  reverse :: "string \<Rightarrow> string"
  reverse_begin :: "string \<Rightarrow> string"
  resolve_url :: "string \<Rightarrow> string option"
  urlencode :: "query_dict \<Rightarrow> string"
  authenticate :: "string \<Rightarrow> string \<Rightarrow> user_id option"
  load_backends :: "string list"
  get_saml_idps :: "string list"
  get_auth_backend_display :: "string \<Rightarrow> string \<times> string"
  generate_key :: string
  TokenForm_clean :: "query_dict \<Rightarrow> token \<Rightarrow> token_form_data option"
  ConfirmationForm_is_valid :: "query_dict \<Rightarrow> bool"

record env =
  django_settings :: settings
  get_config :: config
  fw :: framework

section \<open>Requests, responses and the state the views act on\<close>

text \<open>
  The request as the views read it: \<^verbatim>\<open>request.method\<close>, \<^verbatim>\<open>request.GET\<close>,
  \<^verbatim>\<open>request.POST\<close>, \<^verbatim>\<open>request.path\<close> and \<^verbatim>\<open>request.user\<close>, where \<open>None\<close> is the
  anonymous user.
\<close>
record request =
  request_method :: string
  GET :: query_dict
  POST :: query_dict
  path :: string
  request_user :: "user_id option"

text \<open>The records the views write to their loggers, one constructor for each call.\<close>
datatype log_event =
    Debug_form_valid
  | Warning_maintenance_mode
  | Info_authenticated "user_id option"
  | Debug_form_invalid "string option"
  | Debug_redirecting string
  | Warning_unsafe_next string
  | Info_logged_out "user_id option"

text \<open>The flash messages the views add, one constructor for each call.\<close>
datatype message =
    Logged_in_as "user_id option"
  | You_have_logged_out
  | Modified_token token
  | Created_token token
  | Token_deleted

record auth_data =
  display_name :: string
  icon_name :: string
  url :: string

text \<open>A form as a template receives it: the data it is bound to and its instance.\<close>
datatype form =
    LoginForm "query_dict option"
  | TokenForm "query_dict option" "token option"
  | ConfirmationForm "query_dict option"

datatype ctx_value =
    CStr string
  | CBool bool
  | CForm form
  | CToken token
  | CTokens "token list"
  | CTokenTable "token list"
  | CBackends "auth_data list"

text \<open>An exception that a handler lets escape; the framework answers it with an error page.\<close>
datatype exception = NoReverseMatch

text \<open>
  The outcome of a handler: a redirect to a URL together with the cookies the response
  deletes, a rendered template with its context, the raised \<^verbatim>\<open>Http404\<close>, the redirect
  to the login page by which \<^verbatim>\<open>LoginRequiredMixin\<close> answers an anonymous request, or an
  exception that escapes the handler.
\<close>
datatype response =
    HttpResponseRedirect string "string list"
  | Render string "(string \<times> ctx_value) list"
  | Http404
  | RedirectToLogin string
  | Raised exception

text \<open>
  What persists between requests: the session, the rows of the relational store the views
  touch (with the sequence that numbers new token rows), the receivers connected to the
  \<^verbatim>\<open>user_logged_in\<close> signal (a process-wide registry), the clock, and the log and
  message streams.
\<close>
record state =
  session_user :: "user_id option"
  last_login :: "user_id \<Rightarrow> timestamp option"
  userconfigs :: "user_id \<Rightarrow> preferences option"
  tokens :: "token list"
  token_pk_seq :: nat
  user_logged_in_receivers :: "string list"
  clock :: timestamp
  logged :: "log_event list"
  messages :: "message list"

definition logger :: "log_event \<Rightarrow> state \<Rightarrow> state" where
  "logger ev s = s\<lparr>logged := logged s @ [ev]\<rparr>"

definition add_message :: "message \<Rightarrow> state \<Rightarrow> state" where
  "add_message m s = s\<lparr>messages := messages s @ [m]\<rparr>"

section \<open>Login and logout\<close>

text \<open>
  \<^verbatim>\<open>data.get('next', settings.LOGIN_REDIRECT_URL)\<close>, then the guard
  \<^verbatim>\<open>redirect_url and url_has_allowed_host_and_scheme(redirect_url, allowed_hosts=None)\<close>;
  an empty string is falsy.
\<close>
definition redirect_to_next :: "env \<Rightarrow> request \<Rightarrow> state \<Rightarrow> response \<times> state" where
  "redirect_to_next e req s =
     (let data = (if request_method req = ''POST'' then POST req else GET req);
          redirect_url = (case QueryDict_get data ''next'' of
                            None \<Rightarrow> LOGIN_REDIRECT_URL (django_settings e)
                          | Some v \<Rightarrow> v)
      in if redirect_url \<noteq> [] \<and> url_has_allowed_host_and_scheme (fw e) redirect_url
         then (HttpResponseRedirect redirect_url [], logger (Debug_redirecting redirect_url) s)
         else (HttpResponseRedirect (reverse (fw e) ''home'') [],
               (if redirect_url \<noteq> [] then logger (Warning_unsafe_next redirect_url) s else s)))"

definition lower_char :: "char \<Rightarrow> char" where
  "lower_char c =
     (let n = (of_char c :: nat)
      in if of_char CHR ''A'' \<le> n \<and> n \<le> of_char CHR ''Z'' then char_of (n + 32) else c)"

definition lower :: "string \<Rightarrow> string" where
  "lower str = map lower_char str"

definition gen_auth_data :: "env \<Rightarrow> string \<Rightarrow> string \<Rightarrow> query_dict \<Rightarrow> auth_data" where
  "gen_auth_data e name u params =
     (let (dn, icon) = get_auth_backend_display (fw e) name
      in \<lparr>display_name = dn, icon_name = icon, url = u @ ''?'' @ urlencode (fw e) params\<rparr>)"

text \<open>
  The loop over the backend names. \<^verbatim>\<open>params\<close> is built afresh for every name; inside the
  SAML branch the key \<^verbatim>\<open>idp\<close> is overwritten for every identity provider.
\<close>
definition get_auth_backends :: "env \<Rightarrow> request \<Rightarrow> auth_data list" where
  "get_auth_backends e req =
     concat (map (\<lambda>name.
        let u = reverse_begin (fw e) name;
            params = (case QueryDict_get (GET req) ''next'' of
                        None \<Rightarrow> []
                      | Some n \<Rightarrow> (if n \<noteq> [] then [(''next'', n)] else []))
        in if lower name = ''saml'' \<and> get_saml_idps (fw e) \<noteq> []
           then map (\<lambda>idp.
                  let data = gen_auth_data e name u (params @ [(''idp'', idp)])
                  in data\<lparr>display_name := display_name data @ '' ('' @ idp @ '')''\<rparr>)
                (get_saml_idps (fw e))
           else [gen_auth_data e name u params])
      (load_backends (fw e)))"

definition LoginView_get :: "env \<Rightarrow> request \<Rightarrow> state \<Rightarrow> response \<times> state" where
  "LoginView_get e req s =
     (if request_user req \<noteq> None
      then redirect_to_next e req s
      else (Render ''login.html''
              [(''form'', CForm (LoginForm None)),
               (''auth_backends'', CBackends (get_auth_backends e req))], s))"

text \<open>
  \<^verbatim>\<open>LoginForm\<close> is Django's authentication form: it is valid when both fields are present
  and the credential check yields a user, which \<^verbatim>\<open>form.get_user()\<close> then returns.
\<close>
definition LoginForm_get_user :: "env \<Rightarrow> query_dict \<Rightarrow> user_id option" where
  "LoginForm_get_user e data =
     (case (QueryDict_get data ''username'', QueryDict_get data ''password'') of
        (Some n, Some p) \<Rightarrow> authenticate (fw e) n p
      | _ \<Rightarrow> None)"

text \<open>
  \<^verbatim>\<open>user_logged_in.disconnect(update_last_login, dispatch_uid='update_last_login')\<close>
  removes the receiver from the registry; nothing in this module connects it again.
\<close>
definition disconnect :: "string \<Rightarrow> state \<Rightarrow> state" where
  "disconnect uid s =
     s\<lparr>user_logged_in_receivers := filter (\<lambda>r. r \<noteq> uid) (user_logged_in_receivers s)\<rparr>"

text \<open>The receiver Django connects at start-up: it stamps the user's row with the time.\<close>
definition update_last_login :: "user_id \<Rightarrow> state \<Rightarrow> state" where
  "update_last_login u s = s\<lparr>last_login := (last_login s)(u := Some (clock s))\<rparr>"

text \<open>
  \<^verbatim>\<open>auth_login(request, user)\<close>: the session and \<^verbatim>\<open>request.user\<close> now carry the user,
  and the \<^verbatim>\<open>user_logged_in\<close> signal is sent to the receivers still connected.
\<close>
definition auth_login :: "request \<Rightarrow> user_id \<Rightarrow> state \<Rightarrow> request \<times> state" where
  "auth_login req u s =
     (let s1 = s\<lparr>session_user := Some u\<rparr>;
          s2 = (if ''update_last_login'' \<in> set (user_logged_in_receivers s1)
                then update_last_login u s1 else s1)
      in (req\<lparr>request_user := Some u\<rparr>, s2))"

definition LoginView_post :: "env \<Rightarrow> request \<Rightarrow> state \<Rightarrow> response \<times> state" where
  "LoginView_post e req s =
     (case LoginForm_get_user e (POST req) of
        Some u \<Rightarrow>
          (let s1 = logger Debug_form_valid s;
               s2 = (if MAINTENANCE_MODE (get_config e)
                     then disconnect ''update_last_login'' (logger Warning_maintenance_mode s1)
                     else s1);
               (req', s3) = auth_login req u s2;
               s4 = logger (Info_authenticated (request_user req')) s3;
               s5 = add_message (Logged_in_as (request_user req')) s4;
               s6 = (case request_user req' of
                       None \<Rightarrow> s5
                     | Some ru \<Rightarrow>
                        (if userconfigs s5 ru = None
                         then s5\<lparr>userconfigs := (userconfigs s5)
                                  (ru := Some (DEFAULT_USER_PREFERENCES (get_config e)))\<rparr>
                         else s5))
           in redirect_to_next e req' s6)
      | None \<Rightarrow>
          (Render ''login.html''
             [(''form'', CForm (LoginForm (Some (POST req)))),
              (''auth_backends'', CBackends (get_auth_backends e req))],
           logger (Debug_form_invalid (QueryDict_get (POST req) ''username'')) s))"




text \<open>\<^verbatim>\<open>redirect(to)\<close> of \<^verbatim>\<open>django.shortcuts\<close>: a redirect to \<^verbatim>\<open>resolve_url(to)\<close>.\<close>
definition redirect :: "env \<Rightarrow> string \<Rightarrow> response" where
  "redirect e target =
     (case resolve_url (fw e) target of
        None \<Rightarrow> Raised NoReverseMatch
      | Some u \<Rightarrow> HttpResponseRedirect u [])"

section \<open>API tokens\<close>

text \<open>Python's truth value of the optional \<^verbatim>\<open>pk\<close> argument: \<^verbatim>\<open>None\<close> and \<^verbatim>\<open>0\<close> are falsy.\<close>
definition truthy_pk :: "nat option \<Rightarrow> bool" where
  "truthy_pk p = (case p of None \<Rightarrow> False | Some n \<Rightarrow> n \<noteq> 0)"

text \<open>\<^verbatim>\<open>Token.objects.filter(user=request.user)\<close>.\<close>
definition Token_objects_filter :: "user_id \<Rightarrow> state \<Rightarrow> token list" where
  "Token_objects_filter u s = filter (\<lambda>t. user t = Some u) (tokens s)"

text \<open>
  \<^verbatim>\<open>get_object_or_404(queryset, pk=pk)\<close>: \<open>None\<close> stands for the raised \<^verbatim>\<open>Http404\<close>. The
  primary key is unique in the table, so at most one row matches.
\<close>
definition get_object_or_404 :: "token list \<Rightarrow> nat \<Rightarrow> token option" where
  "get_object_or_404 qs p = find (\<lambda>t. pk t = Some p) qs"

text \<open>
  \<^verbatim>\<open>Token(user=...)\<close>: a fresh, unsaved instance. The field defaults are the model's, which
  is not among the sources: no key yet, enabled, no expiry, no address restriction.
\<close>
definition Token_new :: "user_id option \<Rightarrow> token" where
  "Token_new u =
     \<lparr>pk = None, user = u, key = [], enabled = True, expires = None, allowed_ips = []\<rparr>"

text \<open>
  \<^verbatim>\<open>form.save(commit=False)\<close> of a model form: the cleaned data is assigned to the form's
  instance, which is returned unsaved. Neither the primary key nor the user is a form
  field.
\<close>
definition TokenForm_save :: "token_form_data \<Rightarrow> token \<Rightarrow> token" where
  "TokenForm_save cd inst =
     inst\<lparr>key := (case form_key cd of None \<Rightarrow> key inst | Some k \<Rightarrow> k),
          enabled := form_enabled cd,
          expires := form_expires cd,
          allowed_ips := form_allowed_ips cd\<rparr>"

text \<open>
  \<^verbatim>\<open>token.save()\<close>. The model's own \<^verbatim>\<open>save\<close> is not among the sources; by the spec (3
  and 4.2) the secret is generated once, at creation, so a token saved without a key draws
  one. The row is then written as the ORM does: an instance without a primary key is
  inserted under the next number of the sequence; an instance with one replaces its row
  (and is inserted when no row has that key).
\<close>
definition Token_save :: "env \<Rightarrow> token \<Rightarrow> state \<Rightarrow> token \<times> state" where
  "Token_save e t s =
     (let t1 = (if key t = [] then t\<lparr>key := generate_key (fw e)\<rparr> else t)
      in case pk t1 of
           None \<Rightarrow>
             (let n = Suc (token_pk_seq s); t2 = t1\<lparr>pk := Some n\<rparr>
              in (t2, s\<lparr>tokens := tokens s @ [t2], token_pk_seq := n\<rparr>))
         | Some p \<Rightarrow>
             (if \<exists>r \<in> set (tokens s). pk r = Some p
              then (t1, s\<lparr>tokens := map (\<lambda>r. if pk r = Some p then t1 else r) (tokens s)\<rparr>)
              else (t1, s\<lparr>tokens := tokens s @ [t1]\<rparr>)))"

text \<open>\<^verbatim>\<open>token.delete()\<close>.\<close>
definition Token_delete :: "token \<Rightarrow> state \<Rightarrow> state" where
  "Token_delete t s = s\<lparr>tokens := filter (\<lambda>r. pk r \<noteq> pk t) (tokens s)\<rparr>"

text \<open>
  Every token view is a \<^verbatim>\<open>LoginRequiredMixin\<close> view: an anonymous request is sent to the
  login page and the handler does not run.
\<close>
definition TokenListView_get :: "env \<Rightarrow> request \<Rightarrow> state \<Rightarrow> response \<times> state" where
  "TokenListView_get e req s =
     (case request_user req of
        None \<Rightarrow> (RedirectToLogin (path req), s)
      | Some u \<Rightarrow>
         (let toks = Token_objects_filter u s
          in (Render ''users/api_tokens.html''
                [(''tokens'', CTokens toks),
                 (''active_tab'', CStr ''api-tokens''),
                 (''table'', CTokenTable toks)], s)))"

definition TokenEditView_get :: "env \<Rightarrow> request \<Rightarrow> nat option \<Rightarrow> state \<Rightarrow> response \<times> state" where
  "TokenEditView_get e req p s =
     (case request_user req of
        None \<Rightarrow> (RedirectToLogin (path req), s)
      | Some u \<Rightarrow>
         (let found = (if truthy_pk p
                       then get_object_or_404 (Token_objects_filter u s) (the p)
                       else Some (Token_new (Some u)))
          in case found of
               None \<Rightarrow> (Http404, s)
             | Some tok \<Rightarrow>
                (Render ''generic/object_edit.html''
                   [(''object'', CToken tok),
                    (''form'', CForm (TokenForm None (Some tok))),
                    (''return_url'', CStr (reverse (fw e) ''users:token_list''))], s)))"

text \<open>
  In the branch without \<^verbatim>\<open>pk\<close> the form is built without an instance, so it saves into
  an instance of its own, which has no user; the local \<^verbatim>\<open>token\<close> only reaches the page
  rendered for an invalid form.
\<close>
definition TokenEditView_post :: "env \<Rightarrow> request \<Rightarrow> nat option \<Rightarrow> state \<Rightarrow> response \<times> state" where
  "TokenEditView_post e req p s =
     (case request_user req of
        None \<Rightarrow> (RedirectToLogin (path req), s)
      | Some u \<Rightarrow>
         (let found = (if truthy_pk p
                       then (case get_object_or_404 (Token_objects_filter u s) (the p) of
                               None \<Rightarrow> None
                             | Some tok \<Rightarrow>
                                 Some (tok, tok, TokenForm (Some (POST req)) (Some tok)))
                       else Some (Token_new (Some u), Token_new None,
                                  TokenForm (Some (POST req)) None))
          in case found of
               None \<Rightarrow> (Http404, s)
             | Some (tok, inst, frm) \<Rightarrow>
                (case TokenForm_clean (fw e) (POST req) inst of
                   Some cd \<Rightarrow>
                     (let tok1 = TokenForm_save cd inst;
                          tok2 = tok1\<lparr>user := Some u\<rparr>;
                          (tok3, s1) = Token_save e tok2 s;
                          s2 = add_message
                                 (if truthy_pk p then Modified_token tok3 else Created_token tok3) s1
                      in if \<not> truthy_pk p \<and> \<not> ALLOW_TOKEN_RETRIEVAL (django_settings e)
                         then (Render ''users/api_token.html''
                                 [(''object'', CToken tok3),
                                  (''key'', CStr (key tok3)),
                                  (''return_url'', CStr (reverse (fw e) ''users:token_list''))], s2)
                         else if ''_addanother'' \<in> fst ` set (POST req)
                         then (redirect e (path req), s2)
                         else (redirect e ''users:token_list'', s2))
                 | None \<Rightarrow>
                     (Render ''generic/object_edit.html''
                        [(''object'', CToken tok),
                         (''form'', CForm frm),
                         (''return_url'', CStr (reverse (fw e) ''users:token_list'')),
                         (''disable_addanother'',
                            CBool (\<not> ALLOW_TOKEN_RETRIEVAL (django_settings e)))], s))))"

text \<open>
  The instance the form of \<^verbatim>\<open>TokenEditView.post\<close> is bound to: the requester's token
  with that primary key, or the form's own fresh instance when no \<^verbatim>\<open>pk\<close> is given;
  \<open>None\<close> when the lookup raises \<^verbatim>\<open>Http404\<close>.
\<close>
definition form_instance :: "user_id \<Rightarrow> nat option \<Rightarrow> state \<Rightarrow> token option" where
  "form_instance u p s =
     (if truthy_pk p then get_object_or_404 (Token_objects_filter u s) (the p)
      else Some (Token_new None))"

definition TokenDeleteView_get :: "env \<Rightarrow> request \<Rightarrow> nat \<Rightarrow> state \<Rightarrow> response \<times> state" where
  "TokenDeleteView_get e req p s =
     (case request_user req of
        None \<Rightarrow> (RedirectToLogin (path req), s)
      | Some u \<Rightarrow>
         (case get_object_or_404 (Token_objects_filter u s) p of
            None \<Rightarrow> (Http404, s)
          | Some tok \<Rightarrow>
             (Render ''generic/object_delete.html''
                [(''object'', CToken tok),
                 (''form'', CForm (ConfirmationForm None)),
                 (''return_url'', CStr (reverse (fw e) ''users:token_list''))], s)))"

definition TokenDeleteView_post :: "env \<Rightarrow> request \<Rightarrow> nat \<Rightarrow> state \<Rightarrow> response \<times> state" where
  "TokenDeleteView_post e req p s =
     (case request_user req of
        None \<Rightarrow> (RedirectToLogin (path req), s)
      | Some u \<Rightarrow>
         (case get_object_or_404 (Token_objects_filter u s) p of
            None \<Rightarrow> (Http404, s)
          | Some tok \<Rightarrow>
             (if ConfirmationForm_is_valid (fw e) (POST req)
              then (redirect e ''users:token_list'',
                    add_message Token_deleted (Token_delete tok s))
              else (Render ''generic/object_delete.html''
                      [(''object'', CToken tok),
                       (''form'', CForm (ConfirmationForm (Some (POST req)))),
                       (''return_url'', CStr (reverse (fw e) ''users:token_list''))], s))))"

text \<open>The token objects a response hands to its template, in the order of the context.\<close>
fun ctx_tokens :: "ctx_value \<Rightarrow> token list" where
  "ctx_tokens (CToken t) = [t]"
| "ctx_tokens (CTokens ts) = ts"
| "ctx_tokens (CTokenTable ts) = ts"
| "ctx_tokens (CForm (TokenForm d (Some t))) = [t]"
| "ctx_tokens v = []"

definition response_tokens :: "response \<Rightarrow> token list" where
  "response_tokens r =
     (case r of Render tpl ctx \<Rightarrow> concat (map (\<lambda>(n, v). ctx_tokens v) ctx) | _ \<Rightarrow> [])"

text \<open>The strings a response hands to its template under the name \<^verbatim>\<open>key\<close>.\<close>
fun ctx_key_entry :: "string \<times> ctx_value \<Rightarrow> string list" where
  "ctx_key_entry (n, CStr k) = (if n = ''key'' then [k] else [])"
| "ctx_key_entry (n, v) = []"

text \<open>
  Modelled from the spec: the templates \<^verbatim>\<open>users/api_token.html\<close>,
  \<^verbatim>\<open>users/api_tokens.html\<close>, \<^verbatim>\<open>generic/object_edit.html\<close> and
  \<^verbatim>\<open>generic/object_delete.html\<close>, the token table and the token form decide what a
  rendered page prints, and none of them is among the sources. The spec's display policy
  (4.2 and 6): the plaintext secret is returned only at creation time, or on demand when
  the system-wide flag permits retrieval. So the creation page prints the \<^verbatim>\<open>key\<close> it is
  handed, and every other page prints the keys of the tokens it is handed only when the
  flag is set. The result lists a secret once for every place it is printed.
\<close>
definition plaintext_shown :: "env \<Rightarrow> response \<Rightarrow> string list" where
  "plaintext_shown e r =
     (case r of
        Render tpl ctx \<Rightarrow>
          (if tpl = ''users/api_token.html'' then concat (map ctx_key_entry ctx)
           else if ALLOW_TOKEN_RETRIEVAL (django_settings e)
           then map key (response_tokens r)
           else [])
      | _ \<Rightarrow> [])"

text \<open>
  The rows of the token table are well formed: primary keys are unique, positive and not
  beyond the sequence, and every row has a user.
\<close>
fun pk_in_range :: "nat \<Rightarrow> nat option \<Rightarrow> bool" where
  "pk_in_range m None = False"
| "pk_in_range m (Some n) = (0 < n \<and> n \<le> m)"

definition wf_tokens :: "state \<Rightarrow> bool" where
  "wf_tokens s =
     (distinct (map pk (tokens s)) \<and>
      list_all (\<lambda>t. pk_in_range (token_pk_seq s) (pk t) \<and> user t \<noteq> None) (tokens s))"

section \<open>Users, groups and object permissions\<close>

text \<open>
  Modelled from the spec: the model classes are not among the sources. Spec 3: a user has
  a username, the flags active, staff and superuser, and belongs to zero or more groups;
  the first and the last name are the fields \<^verbatim>\<open>UserBulkEditForm\<close> edits besides the flags.
  The text a form field cleans is kept as Python has it, a sequence of code points
  (\<open>unicode\<close>), since the form's length bound and its stripping count code points.
\<close>
type_synonym unicode = "nat list"

record netbox_user =
  user_pk :: nat
  username :: string
  first_name :: unicode
  last_name :: unicode
  is_active :: bool
  is_staff :: bool
  is_superuser :: bool
  groups :: "nat list"

text \<open>
  Modelled from the spec: an \<^verbatim>\<open>ObjectPermission\<close> row over objects of type \<open>'obj\<close>.
  Spec 3: it grants a set of actions over one or more object types to a set of users and
  groups, optionally narrowed by a constraint, and has an enabled flag; the constraint is
  the row-level filter predicate, absent when the grant covers every instance. The
  description is the field \<^verbatim>\<open>ObjectPermissionBulkEditForm\<close> edits besides the flag.
\<close>
record 'obj object_permission =
  perm_pk :: nat
  perm_description :: unicode
  perm_enabled :: bool
  perm_actions :: "string list"
  perm_object_types :: "string list"
  perm_users :: "nat list"
  perm_groups :: "nat list"
  perm_constraint :: "('obj \<Rightarrow> bool) option"

text \<open>
  Modelled from the spec: the permission resolver (the \<^verbatim>\<open>restrict\<close> method of the
  restricted query set and the permission backend) is not among the sources. Spec 4.1: a
  row is collected when it is enabled, its principal set intersects the principal and its
  groups, its action set contains the action and its object-type set contains the object
  type.
\<close>
definition perm_matches ::
  "netbox_user \<Rightarrow> string \<Rightarrow> string \<Rightarrow> 'obj object_permission \<Rightarrow> bool" where
  "perm_matches p action object_type perm =
     (perm_enabled perm \<and>
      (user_pk p \<in> set (perm_users perm) \<or> list_ex (\<lambda>g. g \<in> set (perm_groups perm)) (groups p)) \<and>
      action \<in> set (perm_actions perm) \<and>
      object_type \<in> set (perm_object_types perm))"

text \<open>Modelled from the spec: the collected set of spec 4.1, in table order.\<close>
definition collect ::
  "'obj object_permission list \<Rightarrow> netbox_user \<Rightarrow> string \<Rightarrow> string \<Rightarrow> 'obj object_permission list" where
  "collect perms p action object_type = filter (perm_matches p action object_type) perms"

text \<open>
  Modelled from the spec: a permission with no constraint matches all instances of the
  type (spec 4.1).
\<close>
definition admits :: "'obj object_permission \<Rightarrow> 'obj \<Rightarrow> bool" where
  "admits perm inst = (case perm_constraint perm of None \<Rightarrow> True | Some c \<Rightarrow> c inst)"

text \<open>
  Modelled from the spec: \<^verbatim>\<open>is_allowed(principal, action, object_type, instance?)\<close> of
  spec 4.1. If superuser, allow. If the collected set is empty, deny. Otherwise, for a
  concrete instance, allow iff the instance satisfies at least one collected row's
  constraint.
\<close>
definition is_allowed ::
  "'obj object_permission list \<Rightarrow> netbox_user \<Rightarrow> string \<Rightarrow> string \<Rightarrow> 'obj option \<Rightarrow> bool" where
  "is_allowed perms p action object_type instance =
     (if is_superuser p then True
      else (let ms = collect perms p action object_type
            in if ms = [] then False
               else (case instance of
                       None \<Rightarrow> True
                     | Some i \<Rightarrow> list_ex (\<lambda>perm. admits perm i) ms)))"

text \<open>
  Modelled from the spec: \<^verbatim>\<open>restrict(principal, action, object_type)\<close> of spec 4.1, the
  predicate for list filtering: the union of the collected rows' constraints.
\<close>
definition restrict ::
  "'obj object_permission list \<Rightarrow> netbox_user \<Rightarrow> string \<Rightarrow> string \<Rightarrow> 'obj \<Rightarrow> bool" where
  "restrict perms p action object_type =
     (\<lambda>i. is_allowed perms p action object_type (Some i))"

section \<open>Bulk edit forms\<close>

text \<open>
  \<^verbatim>\<open>UserBulkEditForm\<close>: the submitted values. \<open>pk\<close> is the multiple-choice field over
  \<^verbatim>\<open>self.model.objects.all()\<close>; every other field is optional, and \<open>None\<close> is a field the
  request leaves out of its sparse update.
\<close>
record UserBulkEditForm =
  user_form_pk :: "nat list"
  user_form_first_name :: "unicode option"
  user_form_last_name :: "unicode option"
  user_form_is_active :: "bool option"
  user_form_is_staff :: "bool option"
  user_form_is_superuser :: "bool option"

record ObjectPermissionBulkEditForm =
  perm_form_pk :: "nat list"
  perm_form_description :: "unicode option"
  perm_form_enabled :: "bool option"

text \<open>\<^verbatim>\<open>nullable_fields = ()\<close> in both forms.\<close>
definition UserBulkEditForm_nullable_fields :: "string list" where
  "UserBulkEditForm_nullable_fields = []"

definition ObjectPermissionBulkEditForm_nullable_fields :: "string list" where
  "ObjectPermissionBulkEditForm_nullable_fields = []"

text \<open>
  The code points \<^verbatim>\<open>str.strip()\<close> removes: Python's whitespace.
\<close>
definition python_isspace :: "nat \<Rightarrow> bool" where
  "python_isspace c =
     ((9 \<le> c \<and> c \<le> 13) \<or> (28 \<le> c \<and> c \<le> 32) \<or> c = 133 \<or> c = 160 \<or> c = 5760 \<or>
      (8192 \<le> c \<and> c \<le> 8202) \<or> c = 8232 \<or> c = 8233 \<or> c = 8239 \<or> c = 8287 \<or> c = 12288)"

definition strip :: "unicode \<Rightarrow> unicode" where
  "strip v = rev (dropWhile python_isspace (rev (dropWhile python_isspace v)))"

text \<open>
  \<^verbatim>\<open>forms.CharField(max_length=n, required=False)\<close>: the submitted text is stripped of
  surrounding whitespace; the stripped text is the cleaned value unless it is longer than
  \<^verbatim>\<open>max_length\<close> or holds a null character, in which case the field is in error
  (\<open>None\<close>). An empty value passes.
\<close>
definition CharField_clean :: "nat \<Rightarrow> unicode \<Rightarrow> unicode option" where
  "CharField_clean max_length raw =
     (let v = strip raw
      in if max_length < length v \<or> 0 \<in> set v then None else Some v)"

text \<open>A text field the request may leave out: a field left out stays left out.\<close>
definition clean_optional :: "nat \<Rightarrow> unicode option \<Rightarrow> unicode option option" where
  "clean_optional max_length v =
     (case v of
        None \<Rightarrow> Some None
      | Some raw \<Rightarrow> (case CharField_clean max_length raw of
                       None \<Rightarrow> None
                     | Some c \<Rightarrow> Some (Some c)))"

text \<open>
  \<^verbatim>\<open>ModelMultipleChoiceField\<close> over \<^verbatim>\<open>self.model.objects.all()\<close>: the field is required
  and every choice must be the primary key of a row of the model's table.
\<close>
definition pk_field_ok :: "nat list \<Rightarrow> nat list \<Rightarrow> bool" where
  "pk_field_ok all_pks chosen = (chosen \<noteq> [] \<and> list_all (\<lambda>i. i \<in> set all_pks) chosen)"

text \<open>
  The cleaned data of the form as its field declarations give it, \<open>None\<close> when a field is
  in error: \<open>first_name\<close> and \<open>last_name\<close> have \<^verbatim>\<open>max_length=150\<close>.
\<close>
definition UserBulkEditForm_clean ::
  "netbox_user list \<Rightarrow> UserBulkEditForm \<Rightarrow> UserBulkEditForm option" where
  "UserBulkEditForm_clean objects frm =
     (if pk_field_ok (map user_pk objects) (user_form_pk frm)
      then (case (clean_optional 150 (user_form_first_name frm),
                  clean_optional 150 (user_form_last_name frm)) of
              (Some f, Some l) \<Rightarrow>
                 Some (frm\<lparr>user_form_first_name := f, user_form_last_name := l\<rparr>)
            | _ \<Rightarrow> None)
      else None)"

definition UserBulkEditForm_is_valid :: "netbox_user list \<Rightarrow> UserBulkEditForm \<Rightarrow> bool" where
  "UserBulkEditForm_is_valid objects frm = (UserBulkEditForm_clean objects frm \<noteq> None)"

text \<open>As above; \<open>description\<close> has \<^verbatim>\<open>max_length=200\<close>.\<close>
definition ObjectPermissionBulkEditForm_clean ::
  "'obj object_permission list \<Rightarrow> ObjectPermissionBulkEditForm
     \<Rightarrow> ObjectPermissionBulkEditForm option" where
  "ObjectPermissionBulkEditForm_clean objects frm =
     (if pk_field_ok (map perm_pk objects) (perm_form_pk frm)
      then (case clean_optional 200 (perm_form_description frm) of
              Some d \<Rightarrow> Some (frm\<lparr>perm_form_description := d\<rparr>)
            | None \<Rightarrow> None)
      else None)"

definition ObjectPermissionBulkEditForm_is_valid ::
  "'obj object_permission list \<Rightarrow> ObjectPermissionBulkEditForm \<Rightarrow> bool" where
  "ObjectPermissionBulkEditForm_is_valid objects frm =
     (ObjectPermissionBulkEditForm_clean objects frm \<noteq> None)"

text \<open>
  Modelled from the spec: the generic bulk edit view that consumes these forms is not among
  the sources. Spec 6: a bulk edit takes a sparse field-update map and an explicit set of
  fields to null out. A field is nulled when the form lists it as nullable and the request
  names it; otherwise it takes the value the update map gives it, if any.
\<close>
definition set_field :: "string \<Rightarrow> string list \<Rightarrow> string list \<Rightarrow> 'v option \<Rightarrow> 'v \<Rightarrow> 'v \<Rightarrow> 'v" where
  "set_field name nullable nullify new null_value old =
     (if name \<in> set nullable \<and> name \<in> set nullify then null_value
      else (case new of None \<Rightarrow> old | Some v \<Rightarrow> v))"

text \<open>
  Modelled from the spec: the field changes of a bulk edit (spec 4.4), over the fields the
  form declares.
\<close>
definition UserBulkEditForm_apply :: "UserBulkEditForm \<Rightarrow> string list \<Rightarrow> netbox_user \<Rightarrow> netbox_user" where
  "UserBulkEditForm_apply frm nullify u =
     u\<lparr>first_name := set_field ''first_name'' UserBulkEditForm_nullable_fields nullify
                        (user_form_first_name frm) [] (first_name u),
       last_name := set_field ''last_name'' UserBulkEditForm_nullable_fields nullify
                        (user_form_last_name frm) [] (last_name u),
       is_active := set_field ''is_active'' UserBulkEditForm_nullable_fields nullify
                        (user_form_is_active frm) False (is_active u),
       is_staff := set_field ''is_staff'' UserBulkEditForm_nullable_fields nullify
                        (user_form_is_staff frm) False (is_staff u),
       is_superuser := set_field ''is_superuser'' UserBulkEditForm_nullable_fields nullify
                        (user_form_is_superuser frm) False (is_superuser u)\<rparr>"

text \<open>
  Modelled from the spec: the field changes of a bulk edit (spec 4.4), over the fields the
  form declares.
\<close>
definition ObjectPermissionBulkEditForm_apply ::
  "ObjectPermissionBulkEditForm \<Rightarrow> string list \<Rightarrow> 'obj object_permission \<Rightarrow> 'obj object_permission" where
  "ObjectPermissionBulkEditForm_apply frm nullify perm =
     perm\<lparr>perm_description := set_field ''description''
                                 ObjectPermissionBulkEditForm_nullable_fields nullify
                                 (perm_form_description frm) [] (perm_description perm),
          perm_enabled := set_field ''enabled''
                                 ObjectPermissionBulkEditForm_nullable_fields nullify
                                 (perm_form_enabled frm) False (perm_enabled perm)\<rparr>"

text \<open>
  Modelled from the spec: the uniform outcome of spec 4.4, the number of rows affected and
  the number of unauthorized rows.
\<close>
record bulk_outcome =
  rows_affected :: nat
  rows_unauthorized :: nat

text \<open>
  Modelled from the spec: \<^verbatim>\<open>bulk-apply\<close> of spec 4.4 and 6. The targets are the rows whose
  identifier is in the request; the change is applied only to the targets the predicate
  admits, and the outcome counts the admitted targets and the others.
\<close>
definition bulk_apply ::
  "('row \<Rightarrow> bool) \<Rightarrow> ('row \<Rightarrow> nat) \<Rightarrow> nat list \<Rightarrow> ('row \<Rightarrow> 'row) \<Rightarrow> 'row list
     \<Rightarrow> 'row list \<times> bulk_outcome" where
  "bulk_apply admit row_pk ids change table =
     (let targeted = filter (\<lambda>r. row_pk r \<in> set ids) table;
          admitted = filter admit targeted
      in (map (\<lambda>r. if row_pk r \<in> set ids \<and> admit r then change r else r) table,
          \<lparr>rows_affected = length admitted,
           rows_unauthorized = length targeted - length admitted\<rparr>))"

text \<open>
  Modelled from the spec: the two bulk edit views of \<^verbatim>\<open>views.py\<close> bind a query set and
  a form (\<^verbatim>\<open>NetBoxUser.objects.all()\<close> with \<^verbatim>\<open>forms.UserBulkEditForm\<close>, and
  \<^verbatim>\<open>ObjectPermission.objects.all()\<close> with \<^verbatim>\<open>forms.ObjectPermissionBulkEditForm\<close>); the
  generic view they inherit from is not among the sources. By spec 4.4 the view validates
  the form and applies the change to the targets that the acting principal's
  \<open>restrict\<close> predicate for the update action admits. An invalid form changes nothing
  and yields \<open>None\<close>.
\<close>
definition NetBoxUserBulkEditView ::
  "netbox_user object_permission list \<Rightarrow> netbox_user \<Rightarrow> UserBulkEditForm \<Rightarrow> string list
     \<Rightarrow> netbox_user list \<Rightarrow> netbox_user list \<times> bulk_outcome option" where
  "NetBoxUserBulkEditView perms p frm nullify objects =
     (case UserBulkEditForm_clean objects frm of
        Some cleaned \<Rightarrow>
          (let (objects', out) =
                  bulk_apply (restrict perms p ''update'' ''users.netboxuser'') user_pk
                    (user_form_pk cleaned) (UserBulkEditForm_apply cleaned nullify) objects
           in (objects', Some out))
      | None \<Rightarrow> (objects, None))"

text \<open>Modelled from the spec: as above, for the object permissions.\<close>
definition ObjectPermissionBulkEditView ::
  "'obj object_permission object_permission list \<Rightarrow> netbox_user
     \<Rightarrow> ObjectPermissionBulkEditForm \<Rightarrow> string list
     \<Rightarrow> 'obj object_permission list \<Rightarrow> 'obj object_permission list \<times> bulk_outcome option" where
  "ObjectPermissionBulkEditView perms p frm nullify objects =
     (case ObjectPermissionBulkEditForm_clean objects frm of
        Some cleaned \<Rightarrow>
          (let (objects', out) =
                  bulk_apply (restrict perms p ''update'' ''users.objectpermission'') perm_pk
                    (perm_form_pk cleaned) (ObjectPermissionBulkEditForm_apply cleaned nullify)
                    objects
           in (objects', Some out))
      | None \<Rightarrow> (objects, None))"

section \<open>Sample inputs\<close>

text \<open>
  A deployment to run the views on. The sample host check admits the local paths: the
  strings of URL characters that begin with a single slash. It rejects every other string,
  among them every URL that names a host.
\<close>
definition example_check :: "string \<Rightarrow> bool" where
  "example_check u =
     (case u of
        [] \<Rightarrow> False
      | c # cs \<Rightarrow>
          c = CHR ''/'' \<and> (case cs of [] \<Rightarrow> True | d # ds \<Rightarrow> d \<noteq> CHR ''/'') \<and>
          list_all (\<lambda>x. x \<in> set ''abcdefghijklmnopqrstuvwxyzABCDEFGHIJKLMNOPQRSTUVWXYZ0123456789/-._~?=&%'') u)"

definition example_reverse :: "string \<Rightarrow> string" where
  "example_reverse name =
     (if name = ''home'' then ''/''
      else if name = ''users:token_list'' then ''/user/api-tokens/''
      else ''/'' @ name @ ''/'')"

text \<open>
  The sample \<open>resolve_url\<close> knows the two route names, takes a string with a slash or a
  dot for a URL and raises for anything else.
\<close>
definition example_resolve_url :: "string \<Rightarrow> string option" where
  "example_resolve_url target =
     (if target = ''home'' then Some ''/''
      else if target = ''users:token_list'' then Some ''/user/api-tokens/''
      else if CHR ''/'' \<in> set target \<or> CHR ''.'' \<in> set target then Some target
      else None)"

definition example_authenticate :: "string \<Rightarrow> string \<Rightarrow> user_id option" where
  "example_authenticate name password =
     (if name = ''alice'' \<and> password = ''wonderland'' then Some 1
      else if name = ''bob'' \<and> password = ''builder'' then Some 2
      else None)"

definition example_TokenForm_clean :: "query_dict \<Rightarrow> token \<Rightarrow> token_form_data option" where
  "example_TokenForm_clean data inst =
     (case QueryDict_get data ''allowed_ips'' of
        None \<Rightarrow> None
      | Some ip \<Rightarrow>
          Some \<lparr>form_key = None, form_enabled = (QueryDict_get data ''enabled'' = Some ''on''),
                form_expires = None, form_allowed_ips = (if ip = [] then [] else [ip])\<rparr>)"

definition example_fw :: framework where
  "example_fw =
     \<lparr>url_has_allowed_host_and_scheme = example_check,
      reverse = example_reverse,
      reverse_begin = (\<lambda>name. ''/oauth/login/'' @ name @ ''/''),
      resolve_url = example_resolve_url,
      urlencode = (\<lambda>params. concat (map (\<lambda>(k, v). k @ ''='' @ v @ ''&'') params)),
      authenticate = example_authenticate,
      load_backends = [],
      get_saml_idps = [],
      get_auth_backend_display = (\<lambda>name. (name, ''login'')),
      generate_key = ''3f9a0c51d2'',
      TokenForm_clean = example_TokenForm_clean,
      ConfirmationForm_is_valid = (\<lambda>data. QueryDict_get data ''confirm'' = Some ''true'')\<rparr>"

definition example_env :: env where
  "example_env =
     \<lparr>django_settings =
        \<lparr>LOGIN_REDIRECT_URL = ''/welcome/'', LOGOUT_REDIRECT_URL = ''/goodbye/'',
         ALLOW_TOKEN_RETRIEVAL = False\<rparr>,
      get_config =
        \<lparr>MAINTENANCE_MODE = True,
         DEFAULT_USER_PREFERENCES = [(''pagination.per_page'', ''50'')]\<rparr>,
      fw = example_fw\<rparr>"

text \<open>
  The same deployment with a login default on another host and a logout destination that
  is neither a route name nor a URL.
\<close>
definition portal_env :: env where
  "portal_env =
     \<lparr>django_settings =
        \<lparr>LOGIN_REDIRECT_URL = ''https://portal.example/'', LOGOUT_REDIRECT_URL = ''goodbye'',
         ALLOW_TOKEN_RETRIEVAL = False\<rparr>,
      get_config =
        \<lparr>MAINTENANCE_MODE = True,
         DEFAULT_USER_PREFERENCES = [(''pagination.per_page'', ''50'')]\<rparr>,
      fw = example_fw\<rparr>"

definition alice_token :: token where
  "alice_token =
     \<lparr>pk = Some 1, user = Some 1, key = ''a1b2c3'', enabled = True, expires = None,
      allowed_ips = []\<rparr>"

definition bob_token :: token where
  "bob_token =
     \<lparr>pk = Some 2, user = Some 2, key = ''d4e5f6'', enabled = False, expires = Some 900,
      allowed_ips = []\<rparr>"

definition example_state :: state where
  "example_state =
     \<lparr>session_user = None,
      last_login = (\<lambda>u. if u = 1 then Some 100 else None),
      userconfigs = (\<lambda>u. if u = 2 then Some [(''ui.colormode'', ''dark'')] else None),
      tokens = [alice_token, bob_token],
      token_pk_seq = 2,
      user_logged_in_receivers = [''update_last_login''],
      clock = 500,
      logged = [],
      messages = []\<rparr>"

definition login_request :: "(string \<times> string) list \<Rightarrow> request" where
  "login_request extra =
     \<lparr>request_method = ''POST'', GET = [],
      POST = extra @ [(''username'', ''alice''), (''password'', ''wonderland'')],
      path = ''/login/'', request_user = None\<rparr>"

definition user_request :: "string \<Rightarrow> string \<Rightarrow> query_dict \<Rightarrow> query_dict \<Rightarrow> user_id option \<Rightarrow> request" where
  "user_request m pth get_data post_data u =
     \<lparr>request_method = m, GET = get_data, POST = post_data, path = pth, request_user = u\<rparr>"

definition example_users :: "netbox_user list" where
  "example_users =
     [\<lparr>user_pk = 1, username = ''alice'', first_name = [65, 108], last_name = [65],
       is_active = True, is_staff = True, is_superuser = False, groups = [10]\<rparr>,
      \<lparr>user_pk = 2, username = ''bob'', first_name = [66, 111, 98], last_name = [66],
       is_active = True, is_staff = False, is_superuser = False, groups = []\<rparr>,
      \<lparr>user_pk = 3, username = ''carol'', first_name = [67, 97, 114], last_name = [67],
       is_active = False, is_staff = False, is_superuser = False, groups = [10]\<rparr>]"

text \<open>
  One enabled grant to group 10 (view users), one enabled grant to user 2 (update users that
  are not staff) and one disabled grant to user 1 (update users).
\<close>
definition example_perms :: "netbox_user object_permission list" where
  "example_perms =
     [\<lparr>perm_pk = 1, perm_description = [118], perm_enabled = True,
       perm_actions = [''view''], perm_object_types = [''users.netboxuser''],
       perm_users = [], perm_groups = [10], perm_constraint = None\<rparr>,
      \<lparr>perm_pk = 2, perm_description = [101], perm_enabled = True,
       perm_actions = [''update''], perm_object_types = [''users.netboxuser''],
       perm_users = [2], perm_groups = [], perm_constraint = Some (\<lambda>u. \<not> is_staff u)\<rparr>,
      \<lparr>perm_pk = 3, perm_description = [111], perm_enabled = False,
       perm_actions = [''update''], perm_object_types = [''users.netboxuser''],
       perm_users = [1], perm_groups = [], perm_constraint = None\<rparr>]"

definition example_form :: UserBulkEditForm where
  "example_form =
     \<lparr>user_form_pk = [1, 3], user_form_first_name = None, user_form_last_name = Some [88],
      user_form_is_active = Some True, user_form_is_staff = None,
      user_form_is_superuser = None\<rparr>"

section \<open>The post-login redirect\<close>

lemma fst_redirect_to_next:
  "fst (redirect_to_next e req s) =
     HttpResponseRedirect
       (let data = (if request_method req = ''POST'' then POST req else GET req);
            redirect_url = (case QueryDict_get data ''next'' of
                              None \<Rightarrow> LOGIN_REDIRECT_URL (django_settings e) | Some v \<Rightarrow> v)
        in if redirect_url \<noteq> [] \<and> url_has_allowed_host_and_scheme (fw e) redirect_url
           then redirect_url else reverse (fw e) ''home'') []"
  by (simp add: redirect_to_next_def Let_def)

lemma snd_redirect_to_next:
  "session_user (snd (redirect_to_next e req s)) = session_user s"
  "last_login (snd (redirect_to_next e req s)) = last_login s"
  "userconfigs (snd (redirect_to_next e req s)) = userconfigs s"
  "tokens (snd (redirect_to_next e req s)) = tokens s"
  "user_logged_in_receivers (snd (redirect_to_next e req s)) = user_logged_in_receivers s"
  by (simp_all add: redirect_to_next_def Let_def logger_def)

lemma LoginView_post_valid_fst:
  assumes "LoginForm_get_user e (POST req) = Some u"
  shows "fst (LoginView_post e req s) = fst (redirect_to_next e req s)"
  using assms
  by (simp add: LoginView_post_def auth_login_def Let_def split_def fst_redirect_to_next)

lemmas ex_defs = example_env_def portal_env_def example_fw_def example_state_def
  login_request_def user_request_def example_check_def example_reverse_def
  example_resolve_url_def example_authenticate_def example_TokenForm_clean_def
  alice_token_def bob_token_def QueryDict_get_def

lemma ex_login_valid: "LoginForm_get_user example_env (POST (login_request extra)) = Some 1"
  by (simp add: LoginForm_get_user_def ex_defs)





text \<open>
  Claim C10. A GET request to the login view by an authenticated user is answered with a
  redirect, never with the login form. The target is decided by the \<^verbatim>\<open>next\<close> of the query
  string through the host check and the fallbacks of a login: an admitted \<^verbatim>\<open>next\<close> is the
  target, a rejected or empty one gives \<^verbatim>\<open>reverse('home')\<close>, and without \<^verbatim>\<open>next\<close> the
  configured default takes its place before the check. The response is the one that any
  successful login carrying the same \<^verbatim>\<open>next\<close> ends with.
\<close>
theorem login_get_authenticated_redirects:
  assumes auth: "request_user req \<noteq> None"
      and get: "request_method req = ''GET''"
  shows "fst (LoginView_get e req s) =
           HttpResponseRedirect
             (case QueryDict_get (GET req) ''next'' of
                None \<Rightarrow>
                  if LOGIN_REDIRECT_URL (django_settings e) \<noteq> [] \<and>
                     url_has_allowed_host_and_scheme (fw e) (LOGIN_REDIRECT_URL (django_settings e))
                  then LOGIN_REDIRECT_URL (django_settings e)
                  else reverse (fw e) ''home''
              | Some n \<Rightarrow>
                  if n \<noteq> [] \<and> url_has_allowed_host_and_scheme (fw e) n then n
                  else reverse (fw e) ''home'') [] \<and>
         (\<forall>req' s' u'.
            request_method req' = ''POST'' \<and> LoginForm_get_user e (POST req') = Some u' \<and>
            QueryDict_get (POST req') ''next'' = QueryDict_get (GET req) ''next''
            \<longrightarrow> fst (LoginView_get e req s) = fst (LoginView_post e req' s'))"
proof -
  have 1: "fst (LoginView_get e req s) = fst (redirect_to_next e req s)"
    using auth by (simp add: LoginView_get_def)
  have 2: "fst (redirect_to_next e req s) =
           HttpResponseRedirect
             (case QueryDict_get (GET req) ''next'' of
                None \<Rightarrow>
                  if LOGIN_REDIRECT_URL (django_settings e) \<noteq> [] \<and>
                     url_has_allowed_host_and_scheme (fw e) (LOGIN_REDIRECT_URL (django_settings e))
                  then LOGIN_REDIRECT_URL (django_settings e)
                  else reverse (fw e) ''home''
              | Some n \<Rightarrow>
                  if n \<noteq> [] \<and> url_has_allowed_host_and_scheme (fw e) n then n
                  else reverse (fw e) ''home'') []"
    using get by (simp add: fst_redirect_to_next split: option.splits)
  have 3: "fst (redirect_to_next e req s) = fst (LoginView_post e req' s')"
    if "request_method req' = ''POST''" "LoginForm_get_user e (POST req') = Some u'"
       "QueryDict_get (POST req') ''next'' = QueryDict_get (GET req) ''next''"
    for req' s' u'
    using that(1,3) get
    by (simp add: LoginView_post_valid_fst[OF that(2)] fst_redirect_to_next)
  show ?thesis using 1 2 3 by auto
qed

theorem login_get_authenticated_redirects_witness:
  "fst (LoginView_get example_env
          (user_request ''GET'' ''/login/'' [(''next'', ''/dashboard'')] [] (Some 2)) example_state)
     = HttpResponseRedirect ''/dashboard'' [] \<and>
   fst (LoginView_get example_env
          (user_request ''GET'' ''/login/'' [(''next'', ''//evil.example/x'')] [] (Some 2)) example_state)
     = HttpResponseRedirect ''/'' [] \<and>
   fst (LoginView_get example_env
          (user_request ''GET'' ''/login/'' [] [] (Some 2)) example_state)
     = HttpResponseRedirect ''/welcome/'' [] \<and>
   fst (LoginView_get example_env
          (user_request ''GET'' ''/login/'' [(''next'', ''/dashboard'')] [] (Some 2)) example_state)
     = fst (LoginView_post example_env (login_request [(''next'', ''/dashboard'')]) example_state)"
proof -
  have a: "request_user (user_request ''GET'' ''/login/'' q [] (Some 2)) \<noteq> None" for q
    by (simp add: ex_defs)
  have g: "request_method (user_request ''GET'' ''/login/'' q [] (Some 2)) = ''GET''" for q
    by (simp add: ex_defs)
  let ?req' = "login_request [(''next'', ''/dashboard'')]"
  have p: "request_method ?req' = ''POST''" by (simp add: ex_defs)
  have same: "QueryDict_get (POST ?req') ''next'' =
              QueryDict_get (GET (user_request ''GET'' ''/login/'' [(''next'', ''/dashboard'')] []
                (Some 2))) ''next''"
    by (simp add: ex_defs)
  note t1 = login_get_authenticated_redirects[OF a[of "[(''next'', ''/dashboard'')]"]
              g[of "[(''next'', ''/dashboard'')]"], of example_env example_state]
  have eq: "fst (LoginView_get example_env
          (user_request ''GET'' ''/login/'' [(''next'', ''/dashboard'')] [] (Some 2)) example_state)
     = fst (LoginView_post example_env ?req' example_state)"
    using t1 p ex_login_valid same by blast
  show ?thesis
    using t1 eq
      login_get_authenticated_redirects[OF a[of "[(''next'', ''//evil.example/x'')]"]
              g[of "[(''next'', ''//evil.example/x'')]"], of example_env example_state]
      login_get_authenticated_redirects[OF a[of "[]"] g[of "[]"], of example_env example_state]
    by (simp add: ex_defs)
qed

section \<open>Side effects of a successful login\<close>

text \<open>
  Claim C6. With the maintenance-mode flag set, a successful login leaves every user's
  last-login timestamp as it was, while the session is authenticated as the user, a
  \<^verbatim>\<open>UserConfig\<close> exists for the user afterwards and the response is a redirect.
\<close>
theorem maintenance_mode_keeps_last_login:
  assumes "MAINTENANCE_MODE (get_config e)"
      and "LoginForm_get_user e (POST req) = Some u"
  shows "last_login (snd (LoginView_post e req s)) = last_login s \<and>
         session_user (snd (LoginView_post e req s)) = Some u \<and>
         userconfigs (snd (LoginView_post e req s)) u \<noteq> None \<and>
         (\<exists>target. fst (LoginView_post e req s) = HttpResponseRedirect target [])"
  using assms
  by (simp add: LoginView_post_def auth_login_def Let_def split_def snd_redirect_to_next
      fst_redirect_to_next disconnect_def logger_def add_message_def)

theorem maintenance_mode_keeps_last_login_witness:
  "last_login (snd (LoginView_post example_env (login_request []) example_state)) 1 = Some 100 \<and>
   session_user (snd (LoginView_post example_env (login_request []) example_state)) = Some 1 \<and>
   userconfigs (snd (LoginView_post example_env (login_request []) example_state)) 1 \<noteq> None"
proof -
  have mm: "MAINTENANCE_MODE (get_config example_env)" by (simp add: ex_defs)
  show ?thesis
    using maintenance_mode_keeps_last_login[OF mm ex_login_valid, of "[]" example_state]
    by (simp add: ex_defs)
qed

text \<open>
  Claim C7. After a successful login the user has a \<^verbatim>\<open>UserConfig\<close>: one that was absent
  is created with the default preference map of the configuration, one that existed is
  left as it was; no other user's \<^verbatim>\<open>UserConfig\<close> changes.
\<close>
theorem login_ensures_userconfig:
  assumes "LoginForm_get_user e (POST req) = Some u"
  shows "userconfigs (snd (LoginView_post e req s)) u =
           (case userconfigs s u of
              None \<Rightarrow> Some (DEFAULT_USER_PREFERENCES (get_config e))
            | Some c \<Rightarrow> Some c) \<and>
         (\<forall>v. v \<noteq> u \<longrightarrow> userconfigs (snd (LoginView_post e req s)) v = userconfigs s v)"
  using assms
  by (auto simp add: LoginView_post_def auth_login_def Let_def split_def snd_redirect_to_next
      disconnect_def logger_def add_message_def update_last_login_def split: option.splits)

theorem login_ensures_userconfig_witness:
  "userconfigs (snd (LoginView_post example_env (login_request []) example_state)) 1
     = Some [(''pagination.per_page'', ''50'')] \<and>
   userconfigs (snd (LoginView_post example_env (login_request []) example_state)) 2
     = Some [(''ui.colormode'', ''dark'')]"
  using login_ensures_userconfig[OF ex_login_valid, of "[]" example_state]
  by (simp add: ex_defs)

section \<open>Logout\<close>




section \<open>Ownership of tokens\<close>

lemma pk_unique:
  assumes "distinct (map pk ts)" "t \<in> set ts" "x \<in> set ts" "pk x = pk t"
  shows "x = t"
  using assms by (meson distinct_map inj_onD)

lemma get_object_or_404_foreign:
  assumes d: "distinct (map pk (tokens s))"
      and t: "t \<in> set (tokens s)" "pk t = Some p" "user t = Some a" "a \<noteq> b"
  shows "get_object_or_404 (Token_objects_filter b s) p = None"
proof -
  have "\<not> (\<exists>x \<in> set (Token_objects_filter b s). pk x = Some p)"
  proof
    assume "\<exists>x \<in> set (Token_objects_filter b s). pk x = Some p"
    then obtain x where x: "x \<in> set (tokens s)" "user x = Some b" "pk x = Some p"
      by (auto simp: Token_objects_filter_def)
    with d t have "x = t" by (metis pk_unique)
    with x t show False by simp
  qed
  then show ?thesis by (simp add: get_object_or_404_def find_None_iff)
qed

lemma wf_tokens_pk:
  assumes "wf_tokens s" "t \<in> set (tokens s)"
  shows "\<exists>n. pk t = Some n \<and> 0 < n \<and> n \<le> token_pk_seq s"
proof -
  from assms have "pk_in_range (token_pk_seq s) (pk t)"
    by (simp add: wf_tokens_def list_all_iff)
  then show ?thesis by (cases "pk t") simp_all
qed

lemma wf_tokens_distinct: "wf_tokens s \<Longrightarrow> distinct (map pk (tokens s))"
  by (simp add: wf_tokens_def)

lemma ex_wf: "wf_tokens example_state"
  by (simp add: wf_tokens_def ex_defs)

text \<open>
  Claim C3. Let a token of the table belong to user \<open>a\<close> and let another user \<open>b\<close> be
  the requester. Both handlers of the edit view and both handlers of the delete view,
  called with the token's primary key, end in \<^verbatim>\<open>Http404\<close> and leave the whole state,
  the token with it, as it was; and the tokens handed to \<open>b\<close>'s token list all belong to
  \<open>b\<close>, so the token of \<open>a\<close> is not among them.
\<close>
theorem foreign_token_not_found:
  assumes wf: "wf_tokens s"
      and t: "t \<in> set (tokens s)" "pk t = Some p" "user t = Some a"
      and b: "request_user req = Some b" "a \<noteq> b"
  shows "TokenEditView_get e req (Some p) s = (Http404, s) \<and>
         TokenEditView_post e req (Some p) s = (Http404, s) \<and>
         TokenDeleteView_get e req p s = (Http404, s) \<and>
         TokenDeleteView_post e req p s = (Http404, s) \<and>
         t \<notin> set (response_tokens (fst (TokenListView_get e req s))) \<and>
         list_all (\<lambda>x. user x = Some b) (response_tokens (fst (TokenListView_get e req s)))"
proof -
  have nf: "get_object_or_404 (Token_objects_filter b s) p = None"
    using get_object_or_404_foreign[OF wf_tokens_distinct[OF wf] t b(2)] .
  have pos: "truthy_pk (Some p)"
    using wf_tokens_pk[OF wf t(1)] t(2) by (simp add: truthy_pk_def)
  have 1: "TokenEditView_get e req (Some p) s = (Http404, s)"
    using nf pos b(1) by (simp add: TokenEditView_get_def)
  have 2: "TokenEditView_post e req (Some p) s = (Http404, s)"
    using nf pos b(1) by (simp add: TokenEditView_post_def)
  have 3: "TokenDeleteView_get e req p s = (Http404, s)"
    using nf b(1) by (simp add: TokenDeleteView_get_def)
  have 4: "TokenDeleteView_post e req p s = (Http404, s)"
    using nf b(1) by (simp add: TokenDeleteView_post_def)
  have l: "response_tokens (fst (TokenListView_get e req s)) =
             Token_objects_filter b s @ Token_objects_filter b s"
    using b(1) by (simp add: TokenListView_get_def response_tokens_def Let_def)
  have 5: "t \<notin> set (response_tokens (fst (TokenListView_get e req s)))"
    using t(3) b(2) by (simp add: l Token_objects_filter_def)
  have 6: "list_all (\<lambda>x. user x = Some b) (response_tokens (fst (TokenListView_get e req s)))"
    by (simp add: l Token_objects_filter_def list_all_iff)
  from 1 2 3 4 5 6 show ?thesis by simp
qed

theorem foreign_token_not_found_witness:
  "TokenEditView_get example_env (user_request ''GET'' ''/user/api-tokens/1/edit/'' [] [] (Some 2))
      (Some 1) example_state = (Http404, example_state) \<and>
   TokenEditView_post example_env (user_request ''GET'' ''/user/api-tokens/1/edit/'' [] [] (Some 2))
      (Some 1) example_state = (Http404, example_state) \<and>
   TokenDeleteView_get example_env (user_request ''GET'' ''/user/api-tokens/1/edit/'' [] [] (Some 2))
      1 example_state = (Http404, example_state) \<and>
   TokenDeleteView_post example_env (user_request ''GET'' ''/user/api-tokens/1/edit/'' [] [] (Some 2))
      1 example_state = (Http404, example_state) \<and>
   alice_token \<notin> set (response_tokens (fst (TokenListView_get example_env
       (user_request ''GET'' ''/user/api-tokens/1/edit/'' [] [] (Some 2)) example_state)))"
proof -
  let ?req = "user_request ''GET'' ''/user/api-tokens/1/edit/'' [] [] (Some 2)"
  have t: "alice_token \<in> set (tokens example_state)" "pk alice_token = Some 1"
          "user alice_token = Some 1"
    by (simp_all add: ex_defs)
  have b: "request_user ?req = Some 2" "(1::nat) \<noteq> 2" by (simp_all add: ex_defs)
  show ?thesis
    using foreign_token_not_found[OF ex_wf t b, of example_env] by simp
qed

section \<open>Saving a token\<close>

lemma Token_save_rows:
  assumes "Token_save e t s = (t', s')"
  shows "\<forall>r \<in> set (tokens s'). r \<in> set (tokens s) \<or> r = t'"
  using assms
  by (auto simp: Token_save_def Let_def split: option.splits if_splits)

lemma Token_save_user:
  assumes "Token_save e t s = (t', s')"
  shows "user t' = user t"
  using assms
  by (auto simp: Token_save_def Let_def split: option.splits if_splits)

lemma Token_save_stored:
  assumes "Token_save e t s = (t', s')"
  shows "t' \<in> set (tokens s')"
  using assms
  by (auto simp: Token_save_def Let_def split: option.splits if_splits)

lemma Token_save_messages:
  assumes "Token_save e t s = (t', s')"
  shows "messages s' = messages s"
  using assms
  by (auto simp: Token_save_def Let_def split: option.splits if_splits)

lemma Token_save_pk:
  assumes "Token_save e t s = (t', s')"
  shows "pk t' = (case pk t of None \<Rightarrow> Some (Suc (token_pk_seq s)) | Some n \<Rightarrow> Some n)"
  using assms
  by (auto simp: Token_save_def Let_def split: option.splits if_splits)

lemma tokens_add_message [simp]: "tokens (add_message m s) = tokens s"
  by (simp add: add_message_def)

lemma messages_add_message [simp]: "messages (add_message m s) = messages s @ [m]"
  by (simp add: add_message_def)

lemma TokenEditView_post_state:
  assumes "request_user req = Some u"
  shows "snd (TokenEditView_post e req p s) =
           (case form_instance u p s of
              None \<Rightarrow> s
            | Some inst \<Rightarrow>
               (case TokenForm_clean (fw e) (POST req) inst of
                  None \<Rightarrow> s
                | Some cd \<Rightarrow>
                   add_message
                     (if truthy_pk p
                      then Modified_token (fst (Token_save e ((TokenForm_save cd inst)\<lparr>user := Some u\<rparr>) s))
                      else Created_token (fst (Token_save e ((TokenForm_save cd inst)\<lparr>user := Some u\<rparr>) s)))
                     (snd (Token_save e ((TokenForm_save cd inst)\<lparr>user := Some u\<rparr>) s))))"
  using assms
  by (simp add: TokenEditView_post_def form_instance_def Let_def split_def split: option.splits)

lemma find_SomeD:
  "find P xs = Some x \<Longrightarrow> P x \<and> x \<in> set xs"
  by (induction xs) (auto split: if_splits)

lemma get_object_or_404_SomeD:
  assumes "get_object_or_404 (Token_objects_filter u s) n = Some t"
  shows "pk t = Some n \<and> t \<in> set (tokens s) \<and> user t = Some u"
  using find_SomeD[OF assms[unfolded get_object_or_404_def]]
  by (simp add: Token_objects_filter_def)

lemma form_instance_pk:
  assumes "form_instance u p s = Some inst"
  shows "pk inst = (if truthy_pk p then p else None)"
        "truthy_pk p \<Longrightarrow> inst \<in> set (tokens s) \<and> user inst = Some u"
  using assms get_object_or_404_SomeD[of u s "the p" inst]
  by (auto simp: form_instance_def Token_new_def truthy_pk_def split: if_splits option.splits)

text \<open>
  Claim C9. Whenever the token edit view saves a token, on create and on edit and whatever
  the posted data, the token it stores has the requesting user as its user: the saved
  token is in the table under its primary key, it is the token the success message names,
  its user is the requester, and no other row was written.
\<close>
theorem token_user_forced_to_requester:
  assumes u: "request_user req = Some u"
      and inst: "form_instance u p s = Some inst"
      and valid: "TokenForm_clean (fw e) (POST req) inst = Some cd"
  shows "\<exists>t. t \<in> set (tokens (snd (TokenEditView_post e req p s))) \<and>
             user t = Some u \<and>
             pk t = (if truthy_pk p then p else Some (Suc (token_pk_seq s))) \<and>
             messages (snd (TokenEditView_post e req p s)) =
               messages s @ [if truthy_pk p then Modified_token t else Created_token t] \<and>
             (\<forall>r \<in> set (tokens (snd (TokenEditView_post e req p s))).
                 r \<in> set (tokens s) \<or> r = t)"
proof -
  obtain t' s' where sv: "Token_save e ((TokenForm_save cd inst)\<lparr>user := Some u\<rparr>) s = (t', s')"
    by (cases "Token_save e ((TokenForm_save cd inst)\<lparr>user := Some u\<rparr>) s")
  have st: "snd (TokenEditView_post e req p s) =
              add_message (if truthy_pk p then Modified_token t' else Created_token t') s'"
    using inst valid sv by (simp add: TokenEditView_post_state[OF u])
  have usr: "user t' = Some u" using Token_save_user[OF sv] by simp
  have pk': "pk t' = (if truthy_pk p then p else Some (Suc (token_pk_seq s)))"
    using Token_save_pk[OF sv] form_instance_pk(1)[OF inst]
    by (auto simp: TokenForm_save_def truthy_pk_def split: option.splits)
  show ?thesis
    using Token_save_rows[OF sv] Token_save_stored[OF sv] usr pk' Token_save_messages[OF sv]
    by (intro exI[of _ t']) (simp add: st)
qed

theorem token_user_forced_to_requester_witness:
  "\<exists>t. t \<in> set (tokens (snd (TokenEditView_post example_env
             (user_request ''POST'' ''/user/api-tokens/2/edit/'' []
                [(''allowed_ips'', ''10.0.0.1''), (''user'', ''1'')] (Some 2))
             (Some 2) example_state))) \<and>
       user t = Some 2 \<and> pk t = Some 2 \<and> allowed_ips t = [''10.0.0.1'']"
proof -
  let ?req = "user_request ''POST'' ''/user/api-tokens/2/edit/'' []
                [(''allowed_ips'', ''10.0.0.1''), (''user'', ''1'')] (Some 2)"
  let ?cd = "\<lparr>form_key = None, form_enabled = False, form_expires = None,
              form_allowed_ips = [''10.0.0.1'']\<rparr>"
  have u: "request_user ?req = Some 2" by (simp add: ex_defs)
  have i: "form_instance 2 (Some 2) example_state = Some bob_token"
    by (simp add: form_instance_def truthy_pk_def get_object_or_404_def Token_objects_filter_def
        ex_defs)
  have v: "TokenForm_clean (fw example_env) (POST ?req) bob_token = Some ?cd"
    by (simp add: ex_defs)
  have tp: "truthy_pk (Some 2)" by (simp add: truthy_pk_def)
  obtain t where t: "t \<in> set (tokens (snd (TokenEditView_post example_env ?req (Some 2) example_state)))"
      "user t = Some 2" "pk t = Some 2"
      "messages (snd (TokenEditView_post example_env ?req (Some 2) example_state)) =
         messages example_state @ [Modified_token t]"
    using token_user_forced_to_requester[OF u i v] tp by auto
  have "messages (snd (TokenEditView_post example_env ?req (Some 2) example_state)) =
          [Modified_token (bob_token\<lparr>expires := None, allowed_ips := [''10.0.0.1'']\<rparr>)]"
    by (simp add: TokenEditView_post_def truthy_pk_def get_object_or_404_def
        Token_objects_filter_def Token_save_def TokenForm_save_def add_message_def Let_def ex_defs)
  with t(4) have "allowed_ips t = [''10.0.0.1'']" by (simp add: ex_defs)
  with t show ?thesis by blast
qed

section \<open>The table of tokens stays well formed\<close>

lemma wf_tokens_add_message [simp]: "wf_tokens (add_message m s) = wf_tokens s"
  by (simp add: wf_tokens_def add_message_def)

lemma map_pk_replace:
  assumes "pk t = Some p"
  shows "map pk (map (\<lambda>r. if pk r = Some p then t else r) ts) = map pk ts"
  using assms by (induction ts) auto

lemma Token_save_wf:
  assumes wf: "wf_tokens s"
      and usr: "user t \<noteq> None"
      and row: "pk t = None \<or> (\<exists>r \<in> set (tokens s). pk r = pk t)"
  shows "wf_tokens (snd (Token_save e t s))"
proof (cases "pk t")
  case None
  have fresh: "Some (Suc (token_pk_seq s)) \<notin> pk ` set (tokens s)"
  proof
    assume "Some (Suc (token_pk_seq s)) \<in> pk ` set (tokens s)"
    then obtain r where "r \<in> set (tokens s)" "pk r = Some (Suc (token_pk_seq s))" by auto
    with wf_tokens_pk[OF wf this(1)] show False by simp
  qed
  have rng: "pk_in_range m x \<Longrightarrow> pk_in_range (Suc m) x" for m x
    by (cases x) simp_all
  show ?thesis
    using None wf usr fresh
    by (auto simp: Token_save_def Let_def wf_tokens_def list_all_iff rng)
next
  case (Some p)
  with row obtain r where r: "r \<in> set (tokens s)" "pk r = Some p" by auto
  from wf_tokens_pk[OF wf r(1)] r(2) have p: "0 < p" "p \<le> token_pk_seq s" by auto
  let ?t1 = "if key t = [] then t\<lparr>key := generate_key (fw e)\<rparr> else t"
  have pk1: "pk ?t1 = Some p" using Some by simp
  have sv: "snd (Token_save e t s) =
              s\<lparr>tokens := map (\<lambda>x. if pk x = Some p then ?t1 else x) (tokens s)\<rparr>"
    using Some r by (auto simp: Token_save_def Let_def)
  show ?thesis
    using wf usr p Some
    by (auto simp: sv wf_tokens_def map_pk_replace[OF pk1] list_all_iff simp del: map_map)
qed

lemma Token_delete_wf:
  assumes "wf_tokens s"
  shows "wf_tokens (Token_delete t s)"
  using assms by (auto simp: wf_tokens_def Token_delete_def list_all_iff distinct_map_filter)

lemma TokenEditView_post_wf:
  assumes wf: "wf_tokens s"
  shows "wf_tokens (snd (TokenEditView_post e req p s))"
proof (cases "request_user req")
  case None
  then show ?thesis using wf by (simp add: TokenEditView_post_def)
next
  case (Some u)
  show ?thesis
  proof (cases "form_instance u p s")
    case None
    then show ?thesis using wf by (simp add: TokenEditView_post_state[OF Some])
  next
    case inst: (Some inst)
    show ?thesis
    proof (cases "TokenForm_clean (fw e) (POST req) inst")
      case None
      then show ?thesis using wf inst by (simp add: TokenEditView_post_state[OF Some])
    next
      case cd: (Some cd)
      let ?t = "(TokenForm_save cd inst)\<lparr>user := Some u\<rparr>"
      have row: "pk ?t = None \<or> (\<exists>r \<in> set (tokens s). pk r = pk ?t)"
        using form_instance_pk[OF inst] by (auto simp: TokenForm_save_def)
      have "wf_tokens (snd (Token_save e ?t s))"
        by (rule Token_save_wf[OF wf _ row]) simp
      then show ?thesis using inst cd by (simp add: TokenEditView_post_state[OF Some])
    qed
  qed
qed

lemma TokenDeleteView_post_wf:
  assumes wf: "wf_tokens s"
  shows "wf_tokens (snd (TokenDeleteView_post e req p s))"
  using wf Token_delete_wf[OF wf]
  by (simp add: TokenDeleteView_post_def split: option.splits)

section \<open>Display of the token secret\<close>

lemma TokenEditView_post_create_fst:
  assumes "request_user req = Some u" "\<not> truthy_pk p"
      and "\<not> ALLOW_TOKEN_RETRIEVAL (django_settings e)"
      and "TokenForm_clean (fw e) (POST req) (Token_new None) = Some cd"
  shows "fst (TokenEditView_post e req p s) =
           Render ''users/api_token.html''
             [(''object'', CToken (fst (Token_save e ((TokenForm_save cd (Token_new None))\<lparr>user := Some u\<rparr>) s))),
              (''key'', CStr (key (fst (Token_save e ((TokenForm_save cd (Token_new None))\<lparr>user := Some u\<rparr>) s)))),
              (''return_url'', CStr (reverse (fw e) ''users:token_list''))]"
  using assms by (simp add: TokenEditView_post_def Let_def split_def)

lemma redirect_not_Render [simp]: "redirect e target \<noteq> Render tpl ctx"
  by (simp add: redirect_def split: option.splits)

lemma plaintext_shown_hidden:
  assumes "\<not> ALLOW_TOKEN_RETRIEVAL (django_settings e)"
      and "\<And>ctx. r \<noteq> Render ''users/api_token.html'' ctx"
  shows "plaintext_shown e r = []"
  using assms by (cases r) (auto simp: plaintext_shown_def)

lemma TokenEditView_post_edit_hidden:
  assumes "truthy_pk q"
  shows "fst (TokenEditView_post e req q s) \<noteq> Render ''users/api_token.html'' ctx"
  using assms
  by (simp add: TokenEditView_post_def Let_def split_def split: option.splits)

lemma TokenEditView_get_hidden:
  "fst (TokenEditView_get e req q s) \<noteq> Render ''users/api_token.html'' ctx"
  by (simp add: TokenEditView_get_def Let_def split: option.splits)

lemma TokenListView_get_hidden:
  "fst (TokenListView_get e req s) \<noteq> Render ''users/api_token.html'' ctx"
  by (simp add: TokenListView_get_def Let_def split: option.splits)

lemma TokenDeleteView_hidden:
  "fst (TokenDeleteView_get e req n s) \<noteq> Render ''users/api_token.html'' ctx"
  "fst (TokenDeleteView_post e req n s) \<noteq> Render ''users/api_token.html'' ctx"
  by (simp_all add: TokenDeleteView_get_def TokenDeleteView_post_def split: option.splits)

text \<open>
  Claim C2. With token retrieval disabled, a successful creation (no \<^verbatim>\<open>pk\<close>) stores a new
  token and answers with a page that shows that token's secret exactly once; and whatever
  request and state come later, the edit view called with a \<^verbatim>\<open>pk\<close> (either handler), the
  list view and the delete view (either handler) answer with a response that shows no
  secret.
\<close>
theorem token_secret_shown_once:
  assumes flag: "\<not> ALLOW_TOKEN_RETRIEVAL (django_settings e)"
      and u: "request_user req = Some u"
      and create: "\<not> truthy_pk p"
      and valid: "TokenForm_clean (fw e) (POST req) (Token_new None) = Some cd"
      and edit: "truthy_pk q"
  shows "(\<exists>t. t \<in> set (tokens (snd (TokenEditView_post e req p s))) \<and>
              pk t = Some (Suc (token_pk_seq s)) \<and>
              plaintext_shown e (fst (TokenEditView_post e req p s)) = [key t]) \<and>
         plaintext_shown e (fst (TokenEditView_get e req' q s')) = [] \<and>
         plaintext_shown e (fst (TokenEditView_post e req' q s')) = [] \<and>
         plaintext_shown e (fst (TokenListView_get e req' s')) = [] \<and>
         plaintext_shown e (fst (TokenDeleteView_get e req' n s')) = [] \<and>
         plaintext_shown e (fst (TokenDeleteView_post e req' n s')) = []"
proof -
  let ?sv = "Token_save e ((TokenForm_save cd (Token_new None))\<lparr>user := Some u\<rparr>) s"
  obtain t' s1 where sv: "?sv = (t', s1)" by (cases ?sv)
  have inst: "form_instance u p s = Some (Token_new None)"
    using create by (simp add: form_instance_def)
  have st: "snd (TokenEditView_post e req p s) = add_message (Created_token t') s1"
    using inst valid sv create by (simp add: TokenEditView_post_state[OF u])
  have pk': "pk t' = Some (Suc (token_pk_seq s))"
    using Token_save_pk[OF sv] by (simp add: TokenForm_save_def Token_new_def)
  have shown: "plaintext_shown e (fst (TokenEditView_post e req p s)) = [key t']"
    using sv by (simp add: TokenEditView_post_create_fst[OF u create flag valid] plaintext_shown_def)
  have first: "\<exists>t. t \<in> set (tokens (snd (TokenEditView_post e req p s))) \<and>
              pk t = Some (Suc (token_pk_seq s)) \<and>
              plaintext_shown e (fst (TokenEditView_post e req p s)) = [key t]"
    using Token_save_stored[OF sv] pk' shown by (intro exI[of _ t']) (simp add: st)
  show ?thesis
    using first
    by (simp add: plaintext_shown_hidden[OF flag] TokenEditView_post_edit_hidden[OF edit]
        TokenEditView_get_hidden TokenListView_get_hidden TokenDeleteView_hidden)
qed

theorem token_secret_shown_once_witness:
  "plaintext_shown example_env (fst (TokenEditView_post example_env
       (user_request ''POST'' ''/user/api-tokens/add/'' [] [(''allowed_ips'', '''')] (Some 1))
       None example_state)) = [''3f9a0c51d2''] \<and>
   plaintext_shown example_env (fst (TokenEditView_get example_env
       (user_request ''GET'' ''/user/api-tokens/'' [] [] (Some 1)) (Some 3)
       (snd (TokenEditView_post example_env
          (user_request ''POST'' ''/user/api-tokens/add/'' [] [(''allowed_ips'', '''')] (Some 1))
          None example_state)))) = [] \<and>
   plaintext_shown example_env (fst (TokenListView_get example_env
       (user_request ''GET'' ''/user/api-tokens/'' [] [] (Some 1))
       (snd (TokenEditView_post example_env
          (user_request ''POST'' ''/user/api-tokens/add/'' [] [(''allowed_ips'', '''')] (Some 1))
          None example_state)))) = []"
proof -
  let ?req = "user_request ''POST'' ''/user/api-tokens/add/'' [] [(''allowed_ips'', '''')] (Some 1)"
  let ?later = "user_request ''GET'' ''/user/api-tokens/'' [] [] (Some 1)"
  let ?cd = "\<lparr>form_key = None, form_enabled = False, form_expires = None,
              form_allowed_ips = []\<rparr>"
  let ?s' = "snd (TokenEditView_post example_env ?req None example_state)"
  have f: "\<not> ALLOW_TOKEN_RETRIEVAL (django_settings example_env)" by (simp add: ex_defs)
  have u: "request_user ?req = Some 1" by (simp add: ex_defs)
  have c: "\<not> truthy_pk None" by (simp add: truthy_pk_def)
  have v: "TokenForm_clean (fw example_env) (POST ?req) (Token_new None) = Some ?cd"
    by (simp add: ex_defs)
  have q: "truthy_pk (Some 3)" by (simp add: truthy_pk_def)
  have shown: "plaintext_shown example_env (fst (TokenEditView_post example_env ?req None example_state))
                 = [''3f9a0c51d2'']"
    by (simp add: TokenEditView_post_def truthy_pk_def plaintext_shown_def Token_save_def
        TokenForm_save_def Token_new_def add_message_def Let_def ex_defs)
  show ?thesis
    using token_secret_shown_once[OF f u c v q, where s = example_state and req' = ?later
            and s' = ?s'] shown
    by simp
qed

section \<open>The permission resolver fails closed\<close>

lemma collect_empty:
  assumes "list_all (\<lambda>perm. \<not> perm_matches p action object_type perm) perms"
  shows "collect perms p action object_type = []"
  using assms by (simp add: collect_def filter_empty_conv list_all_iff)

text \<open>
  Claim C4. For a principal that is not a superuser, an action and an object type: when no
  row of the permission table is enabled and matches the principal or one of its groups
  together with the action and the object type, \<open>is_allowed\<close> is false, with or without
  a concrete instance.
\<close>
theorem is_allowed_fails_closed:
  assumes "\<not> is_superuser p"
      and "list_all (\<lambda>perm. \<not> perm_matches p action object_type perm) perms"
  shows "\<not> is_allowed perms p action object_type instance"
  using assms(1) collect_empty[OF assms(2)] by (simp add: is_allowed_def)

theorem is_allowed_fails_closed_witness:
  "\<not> is_allowed example_perms (example_users ! 0) ''update'' ''users.netboxuser''
       (Some (example_users ! 1)) \<and>
   \<not> is_allowed example_perms (example_users ! 0) ''update'' ''users.netboxuser'' None"
proof -
  have 1: "\<not> is_superuser (example_users ! 0)" by (simp add: example_users_def)
  have 2: "list_all (\<lambda>perm. \<not> perm_matches (example_users ! 0) ''update'' ''users.netboxuser'' perm)
             example_perms"
    by (simp add: example_users_def example_perms_def perm_matches_def)
  show ?thesis using is_allowed_fails_closed[OF 1 2] by simp
qed

section \<open>Bulk edits are restricted to the rows the principal may modify\<close>

lemma bulk_apply_fst:
  "fst (bulk_apply admit row_pk ids change table) =
     map (\<lambda>r. if row_pk r \<in> set ids \<and> admit r then change r else r) table"
  by (simp add: bulk_apply_def Let_def)

lemma bulk_apply_snd:
  "snd (bulk_apply admit row_pk ids change table) =
     \<lparr>rows_affected = length (filter admit (filter (\<lambda>r. row_pk r \<in> set ids) table)),
      rows_unauthorized = length (filter (\<lambda>r. row_pk r \<in> set ids) table)
                          - length (filter admit (filter (\<lambda>r. row_pk r \<in> set ids) table))\<rparr>"
  by (simp add: bulk_apply_def Let_def)

lemma map_if_id:
  assumes "\<And>r. r \<in> set xs \<Longrightarrow> \<not> c r"
  shows "map (\<lambda>r. if c r then f r else r) xs = xs"
  using assms by (induction xs) auto

text \<open>
  Claim C5. A bulk edit on behalf of a principal changes a row only when the row is targeted
  and the principal's \<open>restrict\<close> predicate for the action admits it, and then by the
  requested change; every other row is left as it was. The outcome counts the targeted
  rows that were admitted and those that were not; when no targeted row is admitted the
  table is unchanged and the outcome is zero rows affected with every targeted row counted
  as unauthorized.
\<close>
theorem bulk_apply_restricted:
  assumes res: "bulk_apply (restrict perms p action object_type) row_pk ids change table
                  = (table', out)"
  shows "length table' = length table \<and>
         (\<forall>i < length table.
            table' ! i = (if row_pk (table ! i) \<in> set ids \<and>
                             restrict perms p action object_type (table ! i)
                          then change (table ! i) else table ! i)) \<and>
         rows_affected out =
           length (filter (\<lambda>r. row_pk r \<in> set ids \<and> restrict perms p action object_type r) table) \<and>
         rows_unauthorized out =
           length (filter (\<lambda>r. row_pk r \<in> set ids \<and> \<not> restrict perms p action object_type r) table) \<and>
         ((\<forall>r \<in> set table. row_pk r \<in> set ids \<longrightarrow> \<not> restrict perms p action object_type r) \<longrightarrow>
            table' = table \<and> rows_affected out = 0 \<and>
            rows_unauthorized out = length (filter (\<lambda>r. row_pk r \<in> set ids) table))"
proof -
  let ?admit = "restrict perms p action object_type"
  have t': "table' = map (\<lambda>r. if row_pk r \<in> set ids \<and> ?admit r then change r else r) table"
    using res bulk_apply_fst[of ?admit row_pk ids change table] by simp
  have o: "out = \<lparr>rows_affected = length (filter ?admit (filter (\<lambda>r. row_pk r \<in> set ids) table)),
      rows_unauthorized = length (filter (\<lambda>r. row_pk r \<in> set ids) table)
                          - length (filter ?admit (filter (\<lambda>r. row_pk r \<in> set ids) table))\<rparr>"
    using res bulk_apply_snd[of ?admit row_pk ids change table] by simp
  have split: "length (filter (\<lambda>r. row_pk r \<in> set ids) table) =
        length (filter (\<lambda>r. row_pk r \<in> set ids \<and> ?admit r) table) +
        length (filter (\<lambda>r. row_pk r \<in> set ids \<and> \<not> ?admit r) table)"
    by (induction table) auto
  have a: "rows_affected out = length (filter (\<lambda>r. row_pk r \<in> set ids \<and> ?admit r) table)"
    by (simp add: o conj_commute)
  have u: "rows_unauthorized out = length (filter (\<lambda>r. row_pk r \<in> set ids \<and> \<not> ?admit r) table)"
    using split by (simp add: o conj_commute)
  have none: "(\<forall>r \<in> set table. row_pk r \<in> set ids \<longrightarrow> \<not> ?admit r) \<longrightarrow>
            table' = table \<and> rows_affected out = 0 \<and>
            rows_unauthorized out = length (filter (\<lambda>r. row_pk r \<in> set ids) table)"
  proof
    assume h: "\<forall>r \<in> set table. row_pk r \<in> set ids \<longrightarrow> \<not> ?admit r"
    then have 1: "table' = table" unfolding t' by (intro map_if_id) auto
    have 2: "filter (\<lambda>r. row_pk r \<in> set ids \<and> ?admit r) table = []"
      using h by (auto simp: filter_empty_conv)
    show "table' = table \<and> rows_affected out = 0 \<and>
            rows_unauthorized out = length (filter (\<lambda>r. row_pk r \<in> set ids) table)"
      using 1 2 a u split by simp
  qed
  show ?thesis using a u none by (simp add: t')
qed

theorem bulk_apply_restricted_witness:
  "bulk_apply (restrict example_perms (example_users ! 0) ''update'' ''users.netboxuser'') user_pk
     (user_form_pk example_form) (UserBulkEditForm_apply example_form []) example_users
   = (example_users, \<lparr>rows_affected = 0, rows_unauthorized = 2\<rparr>)"
proof -
  let ?admit = "restrict example_perms (example_users ! 0) ''update'' ''users.netboxuser''"
  obtain table' out where res:
    "bulk_apply ?admit user_pk (user_form_pk example_form)
       (UserBulkEditForm_apply example_form []) example_users = (table', out)"
    by (cases "bulk_apply ?admit user_pk (user_form_pk example_form)
       (UserBulkEditForm_apply example_form []) example_users")
  have none: "\<forall>r \<in> set example_users. user_pk r \<in> set (user_form_pk example_form) \<longrightarrow> \<not> ?admit r"
    by (simp add: restrict_def is_allowed_def collect_def perm_matches_def example_users_def
        example_perms_def example_form_def)
  have n: "length (filter (\<lambda>r. user_pk r \<in> set (user_form_pk example_form)) example_users) = 2"
    by (simp add: example_users_def example_form_def)
  have "table' = example_users \<and> rows_affected out = 0 \<and> rows_unauthorized out = 2"
    using bulk_apply_restricted[OF res] none n by simp
  then have "(table', out) = (example_users, \<lparr>rows_affected = 0, rows_unauthorized = 2\<rparr>)"
    by (cases out) simp
  with res show ?thesis by simp
qed

lemma NetBoxUserBulkEditView_unauthorized_rows:
  assumes "NetBoxUserBulkEditView perms p frm nullify objects = (objects', out)"
      and "i < length objects"
      and "\<not> restrict perms p ''update'' ''users.netboxuser'' (objects ! i)"
  shows "objects' ! i = objects ! i"
  using assms
  by (auto simp: NetBoxUserBulkEditView_def bulk_apply_def Let_def split: option.splits)

lemma ObjectPermissionBulkEditView_unauthorized_rows:
  assumes "ObjectPermissionBulkEditView perms p frm nullify objects = (objects', out)"
      and "i < length objects"
      and "\<not> restrict perms p ''update'' ''users.objectpermission'' (objects ! i)"
  shows "objects' ! i = objects ! i"
  using assms
  by (auto simp: ObjectPermissionBulkEditView_def bulk_apply_def Let_def split: option.splits)

end
